theory Spec2Isabelle
  imports Main "HOL-Library.Word"
begin

section \<open>The Kubernetes chaincode controller\<close>

text \<open>
  A shallow embedding of \<^verbatim>\<open>core/container/kubernetescontroller/kubernetescontroller.go\<close>
  (the first of the two versions the file holds; the second differs only in the pod
  specification it creates). Go strings are byte sequences, so a Go \<^verbatim>\<open>string\<close> is a
  \<^typ>\<open>string\<close> here: a list of 8-bit characters. The remote orchestrator is state that
  is passed explicitly, together with the list of requests the controller has sent to it.
  Logging is left out; the \<^verbatim>\<open>context.Context\<close>, \<^verbatim>\<open>io.Reader\<close>, build-spec factory
  and prelaunch hook parameters are never touched by the code and are left out as well.
\<close>

subsection \<open>Errors and identities\<close>

text \<open>
  A Go \<^verbatim>\<open>error\<close> is an opaque value for the controller, which only tests it against
  \<^verbatim>\<open>nil\<close>. The API server's two status errors that matter for a deployment name are
  kept apart from every other failure (client construction, a failing transform,
  transient remote errors).
\<close>

datatype error = NotFound string | AlreadyExists string | Failure string

text \<open>
  Modelled from the spec: the type \<^verbatim>\<open>ccintf.CCID\<close> and its method \<^verbatim>\<open>GetName\<close> are
  declared outside the files at hand. The spec's workload identity is the triple of a
  network id, a peer id and a base name, and the base name is what \<^verbatim>\<open>GetName\<close>
  hands to \<^verbatim>\<open>GetVMName\<close>.
\<close>

record CCID =
  NetworkID :: string
  PeerID :: string
  baseName :: string

definition GetName :: "CCID \<Rightarrow> string" where
  "GetName ccid = baseName ccid"

subsection \<open>UTF-8 decoding and the name pattern\<close>

text \<open>
  Go's regular expressions read their input rune by rune: a byte below \<^verbatim>\<open>0x80\<close> is a
  rune of width one, anything else goes through \<^verbatim>\<open>utf8.DecodeRuneInString\<close>, which
  returns the rune and its width, or \<^verbatim>\<open>(RuneError, 1)\<close> for a byte that starts no
  well-formed encoding.
\<close>

definition RuneError :: nat where
  "RuneError = 0xFFFD"

text \<open>
  The decoder's tables, as functions of the first byte \<^verbatim>\<open>s0\<close> of a multi-byte
  encoding (\<^verbatim>\<open>0xC2 \<le> s0 \<le> 0xF4\<close>): the width \<^verbatim>\<open>first[s0] & 7\<close>, and the bounds
  \<^verbatim>\<open>acceptRanges[first[s0] >> 4]\<close> on the second byte. The other continuation bytes
  lie between \<^verbatim>\<open>locb = 0x80\<close> and \<^verbatim>\<open>hicb = 0xBF\<close>.
\<close>

definition first_size :: "nat \<Rightarrow> nat" where
  "first_size s0 = (if s0 < 0xE0 then 2 else if s0 < 0xF0 then 3 else 4)"

definition accept_lo :: "nat \<Rightarrow> nat" where
  "accept_lo s0 = (if s0 = 0xE0 then 0xA0 else if s0 = 0xF0 then 0x90 else 0x80)"

definition accept_hi :: "nat \<Rightarrow> nat" where
  "accept_hi s0 = (if s0 = 0xED then 0x9F else if s0 = 0xF4 then 0x8F else 0xBF)"

fun DecodeRuneInString :: "string \<Rightarrow> nat \<times> nat" where
  "DecodeRuneInString [] = (RuneError, 0)"
| "DecodeRuneInString (c0 # s) =
    (let s0 = (of_char c0 :: nat) in
     if s0 < 0x80 then (s0, 1)
     else if s0 < 0xC2 \<or> 0xF4 < s0 then (RuneError, 1)
     else
       let sz = first_size s0 in
       if length (c0 # s) < sz then (RuneError, 1)
       else
         let s1 = (of_char (s ! 0) :: nat) in
         if s1 < accept_lo s0 \<or> accept_hi s0 < s1 then (RuneError, 1)
         else if sz \<le> 2 then ((s0 mod 32) * 64 + s1 mod 64, 2)
         else
           let s2 = (of_char (s ! 1) :: nat) in
           if s2 < 0x80 \<or> 0xBF < s2 then (RuneError, 1)
           else if sz \<le> 3 then ((s0 mod 16) * 4096 + (s1 mod 64) * 64 + s2 mod 64, 3)
           else
             let s3 = (of_char (s ! 2) :: nat) in
             if s3 < 0x80 \<or> 0xBF < s3 then (RuneError, 1)
             else ((s0 mod 8) * 262144 + (s1 mod 64) * 4096 + (s2 mod 64) * 64
                     + s3 mod 64, 4))"

text \<open>
  The pattern \<^verbatim>\<open>[^a-zA-Z0-9-_.]\<close> is a negated character class. Go's parser reads its
  body as the ranges \<^verbatim>\<open>a-z\<close>, \<^verbatim>\<open>A-Z\<close>, \<^verbatim>\<open>0-9\<close> followed by the single characters
  \<^verbatim>\<open>-\<close>, \<^verbatim>\<open>_\<close> and \<^verbatim>\<open>.\<close> (after a complete range a hyphen stands for itself). A
  compiled pattern of this shape is the list of the inclusive rune ranges it excludes.
\<close>

datatype Regexp = NegClass "(nat \<times> nat) list"

definition vmRegExp :: Regexp where
  "vmRegExp = NegClass
     [(of_char CHR ''a'', of_char CHR ''z''),
      (of_char CHR ''A'', of_char CHR ''Z''),
      (of_char CHR ''0'', of_char CHR ''9''),
      (of_char CHR ''-'', of_char CHR ''-''),
      (of_char CHR ''_'', of_char CHR ''_''),
      (of_char CHR ''.'', of_char CHR ''.'')]"

fun MatchRune :: "Regexp \<Rightarrow> nat \<Rightarrow> bool" where
  "MatchRune (NegClass ranges) r = (\<not> list_ex (\<lambda>(lo, hi). lo \<le> r \<and> r \<le> hi) ranges)"

text \<open>
  \<^verbatim>\<open>re.ReplaceAllString(src, repl)\<close> for a pattern that matches exactly one rune and a
  replacement without \<^verbatim>\<open>$\<close>: scanning from the left, a matching rune is replaced by
  \<^verbatim>\<open>repl\<close> and the bytes of any other rune are copied.
\<close>

function ReplaceAllString :: "Regexp \<Rightarrow> string \<Rightarrow> string \<Rightarrow> string" where
  "ReplaceAllString re [] repl = []"
| "ReplaceAllString re (c # s) repl =
    (if MatchRune re (fst (DecodeRuneInString (c # s))) then repl
     else take (snd (DecodeRuneInString (c # s))) (c # s))
    @ ReplaceAllString re (drop (snd (DecodeRuneInString (c # s))) (c # s)) repl"
  by pat_completeness auto
termination
proof (relation "measure (\<lambda>(re, src, repl). length src)")
  show "wf (measure (\<lambda>(re, src, repl). length src))"
    by simp
next
  fix re :: Regexp and c :: char and s repl :: string
  have "1 \<le> snd (DecodeRuneInString (c # s))"
    by (simp add: Let_def)
  then show "((re, drop (snd (DecodeRuneInString (c # s))) (c # s), repl), (re, c # s, repl))
      \<in> measure (\<lambda>(re, src, repl). length src)"
    by simp
qed

text \<open>The conversion \<^verbatim>\<open>[]rune(s)\<close>: the runes of a string, in order.\<close>

function runes :: "string \<Rightarrow> nat list" where
  "runes [] = []"
| "runes (c # s) =
    fst (DecodeRuneInString (c # s)) # runes (drop (snd (DecodeRuneInString (c # s))) (c # s))"
  by pat_completeness auto
termination
proof (relation "measure length")
  show "wf (measure length)"
    by simp
next
  fix c :: char and s :: string
  have "1 \<le> snd (DecodeRuneInString (c # s))"
    by (simp add: Let_def)
  then show "(drop (snd (DecodeRuneInString (c # s))) (c # s), c # s) \<in> measure length"
    by simp
qed

text \<open>
  \<^verbatim>\<open>strings.Replace(s, old, new, n)\<close> for a non-empty \<^verbatim>\<open>old\<close>: the first \<^verbatim>\<open>n\<close>
  non-overlapping occurrences, leftmost first, and all of them when \<^verbatim>\<open>n < 0\<close>. (Go
  also gives a meaning to an empty \<^verbatim>\<open>old\<close>; the controller never passes one, and the
  model returns \<^verbatim>\<open>s\<close> there.)
\<close>

function Replace :: "string \<Rightarrow> string \<Rightarrow> string \<Rightarrow> int \<Rightarrow> string" where
  "Replace [] old new n = []"
| "Replace (c # s) old new n =
    (if n \<noteq> 0 \<and> old \<noteq> [] \<and> take (length old) (c # s) = old
     then new @ Replace (drop (length old) (c # s)) old new (n - 1)
     else c # Replace s old new n)"
  by pat_completeness auto
termination
  by (relation "measure (\<lambda>(s, old, new, n). length s)") auto

text \<open>
  The spec's side of the naming grammar: the output alphabet \<^verbatim>\<open>[A-Za-z0-9\-_.]\<close>,
  written out character by character, and the grammar \<^verbatim>\<open>[A-Za-z0-9\-_.]+\<close>.
\<close>

definition alphabet :: "char \<Rightarrow> bool" where
  "alphabet c =
     (c \<in> set ''ABCDEFGHIJKLMNOPQRSTUVWXYZabcdefghijklmnopqrstuvwxyz0123456789-_.'')"

definition naming_grammar :: "string \<Rightarrow> bool" where
  "naming_grammar s = (s \<noteq> [] \<and> list_all alphabet s)"

subsection \<open>The orchestrator and its resources\<close>

text \<open>
  The parts of the Kubernetes API objects that the controller fills in. A Go pointer that
  may be \<^verbatim>\<open>nil\<close> is an \<^typ>\<open>'a option\<close>.
\<close>

record EnvVar =
  EnvVar_Name :: string
  Value :: string

record Container =
  Container_Name :: string
  Image :: string
  Command :: "string list"
  Env :: "EnvVar list"

record ObjectMeta =
  Name :: string
  Labels :: "(string \<times> string) list"

record PodSpec =
  Containers :: "Container list"

record PodTemplateSpec =
  Template_ObjectMeta :: ObjectMeta
  Template_Spec :: PodSpec

record DeploymentSpec =
  Replicas :: "32 word option"
  Template :: PodTemplateSpec

record Deployment =
  Deployment_ObjectMeta :: ObjectMeta
  Spec :: DeploymentSpec

datatype DeletionPropagation =
  DeletePropagationOrphan | DeletePropagationBackground | DeletePropagationForeground

record DeleteOptions =
  PropagationPolicy :: "DeletionPropagation option"

text \<open>
  The two calls the controller makes on \<^verbatim>\<open>client.AppsV1beta1().Deployments(namespace)\<close>:
  \<^verbatim>\<open>Delete(name, options)\<close> and \<^verbatim>\<open>Create(deployment)\<close>, each with the namespace of the
  deployments client it is made on.
\<close>

datatype request =
  Delete string string DeleteOptions
| Create string Deployment

text \<open>
  A client set answers a request in a state of the cluster: it returns the error (or
  \<^verbatim>\<open>nil\<close>) and the cluster's next state. The controller knows nothing about the cluster,
  so its type is a parameter. The state the controller runs in holds the cluster and the
  requests sent so far, oldest first.
\<close>

type_synonym 'c Clientset = "request \<Rightarrow> 'c \<Rightarrow> error option \<times> 'c"

record 'c orchestrator =
  cluster :: 'c
  received :: "request list"

definition send :: "'c Clientset \<Rightarrow> request \<Rightarrow> 'c orchestrator \<Rightarrow> error option \<times> 'c orchestrator" where
  "send client rq w =
     (case client rq (cluster w) of
        (err, c') \<Rightarrow> (err, \<lparr>cluster = c', received = received w @ [rq]\<rparr>))"

text \<open>
  The configuration store \<^verbatim>\<open>viper\<close>, as the finite map from keys to string values that
  the controller reads: \<^verbatim>\<open>viper.IsSet\<close> and \<^verbatim>\<open>viper.GetString\<close>.
\<close>

type_synonym viper = "string \<rightharpoonup> string"

definition IsSet :: "viper \<Rightarrow> string \<Rightarrow> bool" where
  "IsSet cfg k = (cfg k \<noteq> None)"

definition GetString :: "viper \<Rightarrow> string \<Rightarrow> string" where
  "GetString cfg k = (case cfg k of None \<Rightarrow> [] | Some v \<Rightarrow> v)"

definition NamespaceDefault :: string where
  "NamespaceDefault = ''default''"

subsection \<open>The controller\<close>

text \<open>
  \<^verbatim>\<open>getClientFnc\<close> is the injected client constructor; a call of it either fails or
  returns the client set.
\<close>

record 'c KubernetesVM =
  vm_id :: string
  getClientFnc :: "error + 'c Clientset"

definition int32Ptr :: "32 word \<Rightarrow> 32 word option" where
  "int32Ptr i = Some i"

definition Deploy :: "'c KubernetesVM \<Rightarrow> CCID \<Rightarrow> string list \<Rightarrow> string list
    \<Rightarrow> 'c orchestrator \<Rightarrow> error option \<times> 'c orchestrator" where
  "Deploy vm ccid args env w = (None, w)"

text \<open>
  \<^verbatim>\<open>GetVMName\<close> returns a pair in Go, and on the error path both components carry a
  value; the model returns the same pair. The format function is an optional argument.
\<close>

definition GetVMName :: "CCID \<Rightarrow> (string \<Rightarrow> string \<times> error option) option
    \<Rightarrow> string \<times> error option" where
  "GetVMName ccid format =
     (let name = GetName ccid;
          name =
            (if NetworkID ccid \<noteq> [] \<and> PeerID ccid \<noteq> []
             then NetworkID ccid @ ''-'' @ PeerID ccid @ ''-'' @ name
             else if NetworkID ccid \<noteq> [] then NetworkID ccid @ ''-'' @ name
             else if PeerID ccid \<noteq> [] then PeerID ccid @ ''-'' @ name
             else name)
      in case format of
           None \<Rightarrow> (ReplaceAllString vmRegExp name ''-'', None)
         | Some f \<Rightarrow>
             (case f name of
                (formattedName, Some err) \<Rightarrow> (formattedName, Some err)
              | (formattedName, None) \<Rightarrow>
                  (ReplaceAllString vmRegExp formattedName ''-'', None)))"

text \<open>
  The value of the variable \<^verbatim>\<open>name\<close> of \<^verbatim>\<open>GetVMName\<close> when the format function
  is reached: the name of the chaincode behind the identifiers that are not empty. It is
  the intermediate name the properties below speak of.
\<close>

definition prefixedName :: "CCID \<Rightarrow> string" where
  "prefixedName ccid =
     (if NetworkID ccid \<noteq> [] \<and> PeerID ccid \<noteq> []
      then NetworkID ccid @ ''-'' @ PeerID ccid @ ''-'' @ GetName ccid
      else if NetworkID ccid \<noteq> [] then NetworkID ccid @ ''-'' @ GetName ccid
      else if PeerID ccid \<noteq> [] then PeerID ccid @ ''-'' @ GetName ccid
      else GetName ccid)"

definition stopInternal :: "'c Clientset \<Rightarrow> string \<Rightarrow> nat \<Rightarrow> bool \<Rightarrow> bool
    \<Rightarrow> 'c orchestrator \<Rightarrow> error option \<times> 'c orchestrator" where
  "stopInternal client ident timeout dontkill dontremove w =
     (let deletePolicy = DeletePropagationForeground
      in send client
           (Delete NamespaceDefault ident \<lparr>PropagationPolicy = Some deletePolicy\<rparr>) w)"

definition Stop :: "'c KubernetesVM \<Rightarrow> CCID \<Rightarrow> nat \<Rightarrow> bool \<Rightarrow> bool
    \<Rightarrow> 'c orchestrator \<Rightarrow> error option \<times> 'c orchestrator" where
  "Stop vm ccid timeout dontkill dontremove w =
     (case GetVMName ccid None of
        (ident, Some err) \<Rightarrow> (Some err, w)
      | (ident, None) \<Rightarrow>
          (case getClientFnc vm of
             Inl err \<Rightarrow> (Some err, w)
           | Inr client \<Rightarrow>
               stopInternal client (Replace ident '':'' ''_'' (- 1))
                 timeout dontkill dontremove w))"

definition Destroy :: "'c KubernetesVM \<Rightarrow> CCID \<Rightarrow> bool \<Rightarrow> bool
    \<Rightarrow> 'c orchestrator \<Rightarrow> error option \<times> 'c orchestrator" where
  "Destroy vm ccid force noprune w = (None, w)"

text \<open>The deployment that \<^verbatim>\<open>Start\<close> builds: only its name varies.\<close>

definition deployment :: "string \<Rightarrow> Deployment" where
  "deployment deploymentID =
     \<lparr>Deployment_ObjectMeta = \<lparr>Name = deploymentID, Labels = []\<rparr>,
      Spec =
        \<lparr>Replicas = int32Ptr 1,
         Template =
           \<lparr>Template_ObjectMeta =
              \<lparr>Name = [],
               Labels =
                 [(''app'', ''fabric''),
                  (''org.hyperledger.fabric.base.version'', ''0.3.2''),
                  (''org.hyperledger.fabric.chaincode.id.name'', ''mycc''),
                  (''org.hyperledger.fabric.chaincode.id.version'', ''1.0''),
                  (''org.hyperledger.fabric.chaincode.type'', ''GOLANG''),
                  (''org.hyperledger.fabric.version'', ''1.0.4'')]\<rparr>,
            Template_Spec =
              \<lparr>Containers =
                 [\<lparr>Container_Name = ''fabric-chaincode-mycc-container'',
                   Image = ''hub.estaleiro.serpro/bilhetador/fabric-chaincode-mycc:1.0'',
                   Command = [''chaincode'', ''-peer.address=peer0:7051''],
                   Env =
                     [\<lparr>EnvVar_Name = ''CORE_CHAINCODE_ID_NAME'', Value = ''mycc:1.0''\<rparr>,
                      \<lparr>EnvVar_Name = ''CORE_PEER_TLS_ENABLED'', Value = ''true''\<rparr>,
                      \<lparr>EnvVar_Name = ''CORE_CHAINCODE_LOGGING_LEVEL'', Value = ''info''\<rparr>,
                      \<lparr>EnvVar_Name = ''CORE_CHAINCODE_LOGGING_SHIM'', Value = ''warning''\<rparr>,
                      \<lparr>EnvVar_Name = ''CORE_CHAINCCORE_CHAINCODE_LOGGING_FORMATODE_ID_NAME'',
                       Value = ''%{color}%{time:2006-01-02 15:04:05.000 MST} [%{module}] %{shortfunc} -> %{level:.4s} %{id:03x}%{color:reset} %{message}''\<rparr>,
                      \<lparr>EnvVar_Name = ''PATH'',
                       Value = ''/usr/local/sbin:/usr/local/bin:/usr/sbin:/usr/bin:/sbin:/bin''\<rparr>,
                      \<lparr>EnvVar_Name = ''CORE_CHAINCODE_BUILDLEVEL'', Value = ''1.0.4''\<rparr>,
                      \<lparr>EnvVar_Name = ''CORE_PEER_TLS_ROOTCERT_FILE'',
                       Value = ''/etc/hyperledger/fabric/peer.crt''\<rparr>]\<rparr>]\<rparr>\<rparr>\<rparr>\<rparr>"

text \<open>
  \<^verbatim>\<open>Start\<close>. The result of the clean-up call is dropped, as in the Go statement
  \<^verbatim>\<open>vm.stopInternal(ctxt, client, deploymentID, 0, false, false)\<close>; only the state it
  leaves is kept. The configuration is read after the clean-up.
\<close>

definition Start :: "'c KubernetesVM \<Rightarrow> CCID \<Rightarrow> string list \<Rightarrow> string list \<Rightarrow> viper
    \<Rightarrow> 'c orchestrator \<Rightarrow> error option \<times> 'c orchestrator" where
  "Start vm ccid args env cfg w =
     (case getClientFnc vm of
        Inl err \<Rightarrow> (Some err, w)
      | Inr client \<Rightarrow>
          (case GetVMName ccid None of
             (deploymentID, Some err) \<Rightarrow> (Some err, w)
           | (deploymentID, None) \<Rightarrow>
               (let w1 = snd (stopInternal client deploymentID 0 False False w);
                    namespace =
                      (if IsSet cfg ''peer.kubernetes.namespace''
                       then GetString cfg ''peer.kubernetes.namespace''
                       else NamespaceDefault)
                in case send client (Create namespace (deployment deploymentID)) w1 of
                     (Some err, w2) \<Rightarrow> (Some err, w2)
                   | (None, w2) \<Rightarrow> (None, w2))))"

subsection \<open>A reference orchestrator\<close>

text \<open>
  A client set in the manner of client-go's fake one, to run the controller on concrete
  inputs: the cluster is the list of the deployments it holds, each under its namespace
  and name. Deleting an absent deployment is \<^verbatim>\<open>NotFound\<close>, creating a present one is
  \<^verbatim>\<open>AlreadyExists\<close>.
\<close>

type_synonym deployments = "((string \<times> string) \<times> Deployment) list"

fun fake_clientset :: "deployments Clientset" where
  "fake_clientset (Delete namespace ident options) c =
     (if (namespace, ident) \<in> set (map fst c)
      then (None, filter (\<lambda>kv. fst kv \<noteq> (namespace, ident)) c)
      else (Some (NotFound ident), c))"
| "fake_clientset (Create namespace d) c =
     (if (namespace, Name (Deployment_ObjectMeta d)) \<in> set (map fst c)
      then (Some (AlreadyExists (Name (Deployment_ObjectMeta d))), c)
      else (None, c @ [((namespace, Name (Deployment_ObjectMeta d)), d)]))"

definition fake_vm :: "deployments KubernetesVM" where
  "fake_vm = \<lparr>vm_id = [], getClientFnc = Inr fake_clientset\<rparr>"

definition no_requests :: "'c \<Rightarrow> 'c orchestrator" where
  "no_requests c = \<lparr>cluster = c, received = []\<rparr>"

section \<open>Properties of the decoder and of the name pattern\<close>

subsection \<open>Runes of non-ASCII bytes\<close>

lemma mod32: "194 \<le> a \<Longrightarrow> a < 224 \<Longrightarrow> 2 \<le> a mod (32::nat)"
  by presburger

lemma mod16: "225 \<le> a \<Longrightarrow> a < 240 \<Longrightarrow> 1 \<le> a mod (16::nat)"
  by presburger

lemma mod8: "241 \<le> a \<Longrightarrow> a \<le> 244 \<Longrightarrow> 1 \<le> a mod (8::nat)"
  by presburger

lemma mod64a: "160 \<le> b \<Longrightarrow> b \<le> 191 \<Longrightarrow> 32 \<le> b mod (64::nat)"
  by presburger

lemma mod64b: "144 \<le> b \<Longrightarrow> b \<le> 191 \<Longrightarrow> 16 \<le> b mod (64::nat)"
  by presburger

lemma rune2: "194 \<le> a \<Longrightarrow> a < 224 \<Longrightarrow> 128 \<le> (a mod 32) * 64 + (b::nat)"
  using mod32 [of a] by simp


lemma rune3a: "160 \<le> b \<Longrightarrow> b \<le> 191 \<Longrightarrow> 128 \<le> (b mod 64) * 64 + (c::nat)"
  using mod64a [of b] by simp

lemma rune3b: "225 \<le> a \<Longrightarrow> a < 240 \<Longrightarrow> 128 \<le> (a mod 16) * 4096 + (d::nat)"
  using mod16 [of a] by simp

lemma rune4a: "144 \<le> b \<Longrightarrow> b \<le> 191 \<Longrightarrow> 128 \<le> (b mod 64) * 4096 + (c::nat)"
  using mod64b [of b] by simp

lemma rune4b: "241 \<le> a \<Longrightarrow> a \<le> 244 \<Longrightarrow> 128 \<le> (a mod 8) * 262144 + (d::nat)"
  using mod8 [of a] by simp

lemma Decode_size: "1 \<le> snd (DecodeRuneInString (c # s))"
  by (simp add: Let_def)

lemma Decode_shape:
  "fst (DecodeRuneInString (c # s)) = of_char c \<and> (of_char c :: nat) < 128
   \<or> fst (DecodeRuneInString (c # s)) = RuneError
   \<or> (194 \<le> (of_char c :: nat) \<and> first_size (of_char c) \<le> 2
        \<and> fst (DecodeRuneInString (c # s)) = (of_char c mod 32) * 64 + of_char (s ! 0) mod 64)
   \<or> (2 < first_size (of_char c) \<and> first_size (of_char c) \<le> 3
        \<and> accept_lo (of_char c) \<le> of_char (s ! 0) \<and> (of_char (s ! 0) :: nat) \<le> accept_hi (of_char c)
        \<and> fst (DecodeRuneInString (c # s)) =
            (of_char c mod 16) * 4096 + (of_char (s ! 0) mod 64) * 64 + of_char (s ! 1) mod 64)
   \<or> (3 < first_size (of_char c) \<and> (of_char c :: nat) \<le> 244
        \<and> accept_lo (of_char c) \<le> of_char (s ! 0) \<and> (of_char (s ! 0) :: nat) \<le> accept_hi (of_char c)
        \<and> fst (DecodeRuneInString (c # s)) =
            (of_char c mod 8) * 262144 + (of_char (s ! 0) mod 64) * 4096
              + (of_char (s ! 1) mod 64) * 64 + of_char (s ! 2) mod 64)"
  by (simp add: Let_def not_less)


lemma Decode_high:
  assumes "128 \<le> (of_char c :: nat)"
  shows "128 \<le> fst (DecodeRuneInString (c # s))"
proof -
  define s0 where "s0 = (of_char c :: nat)"
  define s1 where "s1 = (of_char (s ! 0) :: nat)"
  define s2 where "s2 = (of_char (s ! 1) :: nat)"
  define s3 where "s3 = (of_char (s ! 2) :: nat)"
  define r where "r = fst (DecodeRuneInString (c # s))"
  have "r = s0 \<and> s0 < 128 \<or> r = RuneError
      \<or> (194 \<le> s0 \<and> first_size s0 \<le> 2 \<and> r = (s0 mod 32) * 64 + s1 mod 64)
      \<or> (2 < first_size s0 \<and> first_size s0 \<le> 3 \<and> accept_lo s0 \<le> s1 \<and> s1 \<le> accept_hi s0
          \<and> r = (s0 mod 16) * 4096 + (s1 mod 64) * 64 + s2 mod 64)
      \<or> (3 < first_size s0 \<and> s0 \<le> 244 \<and> accept_lo s0 \<le> s1 \<and> s1 \<le> accept_hi s0
          \<and> r = (s0 mod 8) * 262144 + (s1 mod 64) * 4096 + (s2 mod 64) * 64 + s3 mod 64)"
    unfolding s0_def s1_def s2_def s3_def r_def by (rule Decode_shape)
  then consider (ascii) "r = s0" "s0 < 128" | (bad) "r = RuneError"
    | (two) "194 \<le> s0" "first_size s0 \<le> 2" "r = (s0 mod 32) * 64 + s1 mod 64"
    | (three) "2 < first_size s0" "first_size s0 \<le> 3" "accept_lo s0 \<le> s1" "s1 \<le> accept_hi s0"
        "r = (s0 mod 16) * 4096 + (s1 mod 64) * 64 + s2 mod 64"
    | (four) "3 < first_size s0" "s0 \<le> 244" "accept_lo s0 \<le> s1" "s1 \<le> accept_hi s0"
        "r = (s0 mod 8) * 262144 + (s1 mod 64) * 4096 + (s2 mod 64) * 64 + s3 mod 64"
    by blast
  then have "128 \<le> r"
  proof cases
    case ascii
    with assms show ?thesis by (simp add: s0_def)
  next
    case bad
    then show ?thesis by (simp add: RuneError_def)
  next
    case two
    from two(2) have "s0 < 224"
      by (simp add: first_size_def split: if_splits)
    with two show ?thesis using rune2 [of s0 "s1 mod 64"] by simp
  next
    case three
    from three(1,2) have b: "224 \<le> s0" "s0 < 240"
      by (simp_all add: first_size_def split: if_splits)
    from three(4) have hi: "s1 \<le> 191"
      by (simp add: accept_hi_def split: if_splits)
    show ?thesis
    proof (cases "s0 = 224")
      case True
      with three(3) have "160 \<le> s1" by (simp add: accept_lo_def)
      with hi three(5) True show ?thesis using rune3a [of s1 "s2 mod 64"] by simp
    next
      case False
      with b have "225 \<le> s0" by simp
      with b three(5) show ?thesis
        using rune3b [of s0 "(s1 mod 64) * 64 + s2 mod 64"] by (simp add: add.assoc)
    qed
  next
    case four
    from four(1) have b: "240 \<le> s0"
      by (simp add: first_size_def split: if_splits)
    from four(4) have hi: "s1 \<le> 191"
      by (simp add: accept_hi_def split: if_splits)
    show ?thesis
    proof (cases "s0 = 240")
      case True
      with four(3) have "144 \<le> s1" by (simp add: accept_lo_def)
      with hi four(5) True show ?thesis
        using rune4a [of s1 "(s2 mod 64) * 64 + s3 mod 64"] by (simp add: add.assoc)
    next
      case False
      with b have "241 \<le> s0" by simp
      with four(2,5) show ?thesis
        using rune4b [of s0 "(s1 mod 64) * 4096 + (s2 mod 64) * 64 + s3 mod 64"]
        by (simp add: add.assoc)
    qed
  qed
  then show ?thesis by (simp add: r_def)
qed

subsection \<open>The pattern and the alphabet\<close>

lemma MatchRune_vmRegExp:
  "MatchRune vmRegExp r \<longleftrightarrow>
     \<not> (97 \<le> r \<and> r \<le> 122 \<or> 65 \<le> r \<and> r \<le> 90 \<or> 48 \<le> r \<and> r \<le> 57
        \<or> r = 45 \<or> r = 95 \<or> r = 46)"
  by (auto simp: vmRegExp_def)

lemma alphabet_code:
  "alphabet c \<longleftrightarrow>
     (of_char c :: nat) \<in> of_char `
       set ''ABCDEFGHIJKLMNOPQRSTUVWXYZabcdefghijklmnopqrstuvwxyz0123456789-_.''"
  unfolding alphabet_def by (simp only: inj_image_mem_iff [OF inj_of_char])

lemma alphabet_iff: "alphabet c \<longleftrightarrow> \<not> MatchRune vmRegExp (of_char c)"
  unfolding MatchRune_vmRegExp alphabet_code
  by simp arith

lemma MatchRune_high: "128 \<le> r \<Longrightarrow> MatchRune vmRegExp r"
  by (simp add: MatchRune_vmRegExp)

lemma alphabet_ascii: "alphabet c \<Longrightarrow> (of_char c :: nat) < 128"
  using MatchRune_high [of "of_char c :: nat"]
  by (cases "(of_char c :: nat) < 128") (simp_all add: alphabet_iff)

lemma Decode_ascii:
  "(of_char c :: nat) < 128 \<Longrightarrow> DecodeRuneInString (c # s) = (of_char c, 1)"
  by (simp add: Let_def)

lemma Match_first:
  "MatchRune vmRegExp (fst (DecodeRuneInString (c # s))) \<longleftrightarrow> \<not> alphabet c"
proof (cases "(of_char c :: nat) < 128")
  case True
  then show ?thesis
    by (simp add: Decode_ascii alphabet_iff del: DecodeRuneInString.simps)
next
  case False
  then have "MatchRune vmRegExp (fst (DecodeRuneInString (c # s)))"
    by (intro MatchRune_high Decode_high) simp
  moreover from False have "\<not> alphabet c"
    using alphabet_ascii [of c] by blast
  ultimately show ?thesis by simp
qed

lemma ReplaceAll_in:
  "alphabet c \<Longrightarrow>
     ReplaceAllString vmRegExp (c # s) repl = c # ReplaceAllString vmRegExp s repl"
  using alphabet_ascii [of c] Match_first [of c s]
  by (simp add: Decode_ascii del: DecodeRuneInString.simps)

lemma ReplaceAll_out:
  "\<not> alphabet c \<Longrightarrow>
     ReplaceAllString vmRegExp (c # s) repl =
       repl @ ReplaceAllString vmRegExp (drop (snd (DecodeRuneInString (c # s))) (c # s)) repl"
  using Match_first [of c s] by (simp del: DecodeRuneInString.simps)

lemma alphabet_dash: "alphabet CHR ''-''"
  by (simp add: alphabet_def)

lemma ReplaceAll_alphabet: "list_all alphabet (ReplaceAllString vmRegExp s ''-'')"
proof (induction s rule: length_induct)
  case (1 s)
  show ?case
  proof (cases s)
    case Nil
    then show ?thesis by simp
  next
    case (Cons c s')
    show ?thesis
    proof (cases "alphabet c")
      case True
      with 1 Cons show ?thesis
        by (simp add: ReplaceAll_in del: ReplaceAllString.simps)
    next
      case False
      have "1 \<le> snd (DecodeRuneInString (c # s'))"
        by (rule Decode_size)
      then have "length (drop (snd (DecodeRuneInString (c # s'))) (c # s')) < length s"
        using Cons by simp
      with 1 have "list_all alphabet
          (ReplaceAllString vmRegExp (drop (snd (DecodeRuneInString (c # s'))) (c # s')) ''-'')"
        by blast
      with False Cons show ?thesis
        by (simp add: ReplaceAll_out alphabet_dash
              del: ReplaceAllString.simps DecodeRuneInString.simps)
    qed
  qed
qed

lemma ReplaceAll_fixed: "list_all alphabet s \<Longrightarrow> ReplaceAllString vmRegExp s repl = s"
  by (induction s) (simp_all add: ReplaceAll_in del: ReplaceAllString.simps(2))

lemma ReplaceAll_runes:
  "ReplaceAllString vmRegExp s ''-'' =
     map (\<lambda>r. if MatchRune vmRegExp r then CHR ''-'' else char_of r) (runes s)"
proof (induction s rule: length_induct)
  case (1 s)
  show ?case
  proof (cases s)
    case Nil
    then show ?thesis by simp
  next
    case (Cons c s')
    have "1 \<le> snd (DecodeRuneInString (c # s'))"
      by (rule Decode_size)
    then have "length (drop (snd (DecodeRuneInString (c # s'))) (c # s')) < length s"
      using Cons by simp
    with 1 have ih: "ReplaceAllString vmRegExp (drop (snd (DecodeRuneInString (c # s'))) (c # s')) ''-''
        = map (\<lambda>r. if MatchRune vmRegExp r then CHR ''-'' else char_of r)
            (runes (drop (snd (DecodeRuneInString (c # s'))) (c # s')))"
      by blast
    show ?thesis
    proof (cases "alphabet c")
      case True
      then have d: "DecodeRuneInString (c # s') = (of_char c, 1)"
        using alphabet_ascii [of c] by (simp add: Decode_ascii del: DecodeRuneInString.simps)
      from True have "\<not> MatchRune vmRegExp (of_char c)"
        by (simp add: alphabet_iff)
      with ih d True Cons show ?thesis
        by (simp add: ReplaceAll_in del: DecodeRuneInString.simps ReplaceAllString.simps)
    next
      case False
      with ih Cons Match_first [of c s'] show ?thesis
        by (simp add: ReplaceAll_out del: DecodeRuneInString.simps ReplaceAllString.simps)
    qed
  qed
qed

lemma ReplaceAll_Nil_iff: "ReplaceAllString vmRegExp s ''-'' = [] \<longleftrightarrow> s = []"
proof (cases s)
  case Nil
  then show ?thesis by simp
next
  case (Cons c s')
  then show ?thesis
    by (cases "alphabet c")
      (simp_all add: ReplaceAll_in ReplaceAll_out
         del: ReplaceAllString.simps(2) DecodeRuneInString.simps)
qed

lemma colon_not_alphabet: "\<not> alphabet CHR '':''"
  by (simp add: alphabet_def)

lemma alphabet_no_colon: "list_all alphabet s \<Longrightarrow> CHR '':'' \<notin> set s"
  using colon_not_alphabet by (auto simp: list_all_iff)

subsection \<open>Replacing a character\<close>

lemma Replace_all_map:
  "n < 0 \<Longrightarrow> Replace s [c] [d] n = map (\<lambda>x. if x = c then d else x) s"
  by (induction s arbitrary: n) auto

lemma Replace_absent: "c \<notin> set s \<Longrightarrow> Replace s [c] new n = s"
  by (induction s arbitrary: n) auto

subsection \<open>Unfolding the name resolution\<close>

lemma GetVMName_None:
  "GetVMName ccid None = (ReplaceAllString vmRegExp (prefixedName ccid) ''-'', None)"
  by (simp add: GetVMName_def prefixedName_def Let_def)

lemma GetVMName_Some:
  "GetVMName ccid (Some f) =
     (case f (prefixedName ccid) of
        (out, Some err) \<Rightarrow> (out, Some err)
      | (out, None) \<Rightarrow> (ReplaceAllString vmRegExp out ''-'', None))"
  by (simp add: GetVMName_def prefixedName_def Let_def)

lemma alphabet_example: "list_all alphabet ''net1-peer1-mycc''"
  by (simp add: alphabet_def)

lemma ReplaceAll_out_ascii:
  "\<not> alphabet c \<Longrightarrow> (of_char c :: nat) < 128 \<Longrightarrow>
     ReplaceAllString vmRegExp (c # s) repl = repl @ ReplaceAllString vmRegExp s repl"
  by (simp add: ReplaceAll_out Decode_ascii del: ReplaceAllString.simps DecodeRuneInString.simps)

section \<open>The claims\<close>

text \<open>
  Claim C4. Name resolution joins the parts of the identity with single \<^verbatim>\<open>-\<close>
  separators before it sanitizes: with a network id and a peer id that are both non-empty
  the sanitizer is applied to \<^verbatim>\<open>networkID-peerID-baseName\<close>; when exactly one of the two
  is non-empty only that one is put before the base name; when both are empty the base
  name alone is sanitized. The identity \<^verbatim>\<open>net1\<close>, \<^verbatim>\<open>peer1\<close>, \<^verbatim>\<open>mycc\<close> resolves to
  \<^verbatim>\<open>net1-peer1-mycc\<close>.
\<close>

theorem GetVMName_joins_identity:
  "(NetworkID ccid \<noteq> [] \<and> PeerID ccid \<noteq> [] \<longrightarrow>
      GetVMName ccid None =
        (ReplaceAllString vmRegExp
           (NetworkID ccid @ ''-'' @ PeerID ccid @ ''-'' @ baseName ccid) ''-'', None))
   \<and> (NetworkID ccid \<noteq> [] \<and> PeerID ccid = [] \<longrightarrow>
      GetVMName ccid None =
        (ReplaceAllString vmRegExp (NetworkID ccid @ ''-'' @ baseName ccid) ''-'', None))
   \<and> (NetworkID ccid = [] \<and> PeerID ccid \<noteq> [] \<longrightarrow>
      GetVMName ccid None =
        (ReplaceAllString vmRegExp (PeerID ccid @ ''-'' @ baseName ccid) ''-'', None))
   \<and> (NetworkID ccid = [] \<and> PeerID ccid = [] \<longrightarrow>
      GetVMName ccid None = (ReplaceAllString vmRegExp (baseName ccid) ''-'', None))
   \<and> GetVMName \<lparr>NetworkID = ''net1'', PeerID = ''peer1'', baseName = ''mycc''\<rparr> None
        = (''net1-peer1-mycc'', None)"
proof -
  have "GetVMName \<lparr>NetworkID = ''net1'', PeerID = ''peer1'', baseName = ''mycc''\<rparr> None
      = (''net1-peer1-mycc'', None)"
    using ReplaceAll_fixed [OF alphabet_example]
    by (simp add: GetVMName_None prefixedName_def GetName_def del: ReplaceAllString.simps)
  then show ?thesis
    by (simp add: GetVMName_None prefixedName_def GetName_def del: ReplaceAllString.simps)
qed

theorem GetVMName_joins_identity_witness:
  "GetVMName \<lparr>NetworkID = ''net1'', PeerID = ''peer1'', baseName = ''my cc''\<rparr> None
     = (''net1-peer1-my-cc'', None)
   \<and> GetVMName \<lparr>NetworkID = ''net1'', PeerID = [], baseName = ''mycc''\<rparr> None
     = (''net1-mycc'', None)
   \<and> GetVMName \<lparr>NetworkID = [], PeerID = ''peer1'', baseName = ''mycc''\<rparr> None
     = (''peer1-mycc'', None)
   \<and> GetVMName \<lparr>NetworkID = [], PeerID = [], baseName = ''mycc''\<rparr> None
     = (''mycc'', None)"
  using GetVMName_joins_identity
      [of "\<lparr>NetworkID = ''net1'', PeerID = ''peer1'', baseName = ''my cc''\<rparr>"]
    GetVMName_joins_identity
      [of "\<lparr>NetworkID = ''net1'', PeerID = [], baseName = ''mycc''\<rparr>"]
    GetVMName_joins_identity
      [of "\<lparr>NetworkID = [], PeerID = ''peer1'', baseName = ''mycc''\<rparr>"]
    GetVMName_joins_identity
      [of "\<lparr>NetworkID = [], PeerID = [], baseName = ''mycc''\<rparr>"]
  by (simp add: ReplaceAll_in ReplaceAll_out_ascii alphabet_def del: ReplaceAllString.simps(2))

text \<open>
  Claim C5. When the format function returns an error, \<^verbatim>\<open>GetVMName\<close> returns that
  error together with the string the function produced, exactly as produced: the
  sanitizer is not applied on this path.
\<close>

theorem GetVMName_transform_error:
  "f (prefixedName ccid) = (out, Some err) \<Longrightarrow> GetVMName ccid (Some f) = (out, Some err)"
  by (simp add: GetVMName_Some)

theorem GetVMName_transform_error_witness:
  "GetVMName \<lparr>NetworkID = [], PeerID = [], baseName = ''my cc''\<rparr>
     (Some (\<lambda>name. (name @ ''!'', Some (Failure ''bad format''))))
   = (''my cc!'', Some (Failure ''bad format''))"
  using GetVMName_transform_error
    [of "\<lambda>name. (name @ ''!'', Some (Failure ''bad format''))"
        "\<lparr>NetworkID = [], PeerID = [], baseName = ''my cc''\<rparr>"
        "''my cc!''" "Failure ''bad format''"]
  by (simp add: prefixedName_def GetName_def)

text \<open>
  Claim C6, as the spec states it: every name that \<^verbatim>\<open>GetVMName\<close> returns without an
  error matches \<^verbatim>\<open>[A-Za-z0-9\-_.]+\<close>, so is not empty. The identity whose three parts are
  empty resolves, without an error, to the empty name.
\<close>

theorem GetVMName_empty_counterexample:
  "snd (GetVMName \<lparr>NetworkID = [], PeerID = [], baseName = []\<rparr> None) = None
   \<and> \<not> naming_grammar (fst (GetVMName \<lparr>NetworkID = [], PeerID = [], baseName = []\<rparr> None))"
  by (simp add: GetVMName_None prefixedName_def GetName_def naming_grammar_def)

text \<open>
  Claim C6, amended. Every name that \<^verbatim>\<open>GetVMName\<close> returns without an error consists
  of characters of the alphabet \<^verbatim>\<open>[A-Za-z0-9\-_.]\<close> only. It is the intermediate name (the
  prefixed name, or what the format function made of it) with each rune outside the
  alphabet replaced by one \<^verbatim>\<open>-\<close> and every other rune kept, where a rune is a UTF-8
  encoded character or a single byte that belongs to no well-formed encoding. The name is
  empty exactly when the intermediate name is empty, and matches the grammar
  \<^verbatim>\<open>[A-Za-z0-9\-_.]+\<close> otherwise. The base name \<^verbatim>\<open>my cc!\<close> alone resolves to
  \<^verbatim>\<open>my-cc-\<close>.
\<close>

theorem GetVMName_alphabet:
  "(snd (GetVMName ccid format) = None \<longrightarrow> list_all alphabet (fst (GetVMName ccid format)))
   \<and> fst (GetVMName ccid None) =
        map (\<lambda>r. if MatchRune vmRegExp r then CHR ''-'' else char_of r)
          (runes (prefixedName ccid))
   \<and> (snd (f (prefixedName ccid)) = None \<longrightarrow>
        fst (GetVMName ccid (Some f)) =
          map (\<lambda>r. if MatchRune vmRegExp r then CHR ''-'' else char_of r)
            (runes (fst (f (prefixedName ccid)))))
   \<and> (fst (GetVMName ccid None) = [] \<longleftrightarrow> prefixedName ccid = [])
   \<and> (prefixedName ccid \<noteq> [] \<longrightarrow> naming_grammar (fst (GetVMName ccid None)))
   \<and> GetVMName \<lparr>NetworkID = [], PeerID = [], baseName = ''my cc!''\<rparr> None
        = (''my-cc-'', None)"
proof -
  have a: "snd (GetVMName ccid format) = None \<longrightarrow> list_all alphabet (fst (GetVMName ccid format))"
  proof (cases format)
    case None
    then show ?thesis by (simp add: GetVMName_None ReplaceAll_alphabet)
  next
    case (Some g)
    then show ?thesis
      by (cases "g (prefixedName ccid)")
        (auto simp: GetVMName_Some ReplaceAll_alphabet split: option.splits)
  qed
  have b: "fst (GetVMName ccid None) =
      map (\<lambda>r. if MatchRune vmRegExp r then CHR ''-'' else char_of r) (runes (prefixedName ccid))"
    by (simp add: GetVMName_None ReplaceAll_runes)
  have c: "snd (f (prefixedName ccid)) = None \<longrightarrow>
      fst (GetVMName ccid (Some f)) =
        map (\<lambda>r. if MatchRune vmRegExp r then CHR ''-'' else char_of r)
          (runes (fst (f (prefixedName ccid))))"
    by (cases "f (prefixedName ccid)") (simp add: GetVMName_Some ReplaceAll_runes)
  have d: "fst (GetVMName ccid None) = [] \<longleftrightarrow> prefixedName ccid = []"
    by (simp add: GetVMName_None ReplaceAll_Nil_iff)
  have e: "prefixedName ccid \<noteq> [] \<longrightarrow> naming_grammar (fst (GetVMName ccid None))"
    by (simp add: naming_grammar_def GetVMName_None ReplaceAll_Nil_iff ReplaceAll_alphabet)
  have g: "GetVMName \<lparr>NetworkID = [], PeerID = [], baseName = ''my cc!''\<rparr> None
      = (''my-cc-'', None)"
    by (simp add: GetVMName_None prefixedName_def GetName_def ReplaceAll_in
          ReplaceAll_out_ascii alphabet_def del: ReplaceAllString.simps(2))
  from a b c d e g show ?thesis by blast
qed

theorem GetVMName_alphabet_witness:
  "list_all alphabet ''net1-peer1-my-cc''
   \<and> fst (GetVMName \<lparr>NetworkID = ''net1'', PeerID = ''peer1'', baseName = ''my cc''\<rparr>
        (Some (\<lambda>name. (name, None)))) = ''net1-peer1-my-cc''
   \<and> naming_grammar ''net1-peer1-my-cc''"
proof -
  let ?c = "\<lparr>NetworkID = ''net1'', PeerID = ''peer1'', baseName = ''my cc''\<rparr>"
  let ?f = "\<lambda>name :: string. (name, None :: error option)"
  have n: "GetVMName ?c None = (''net1-peer1-my-cc'', None)"
    by (simp add: GetVMName_None prefixedName_def GetName_def ReplaceAll_in
          ReplaceAll_out_ascii alphabet_def del: ReplaceAllString.simps(2))
  have s: "GetVMName ?c (Some ?f) = (''net1-peer1-my-cc'', None)"
    by (simp add: GetVMName_Some prefixedName_def GetName_def ReplaceAll_in
          ReplaceAll_out_ascii alphabet_def del: ReplaceAllString.simps(2))
  have p: "prefixedName ?c \<noteq> []"
    by (simp add: prefixedName_def)
  have "snd (GetVMName ?c (Some ?f)) = None \<longrightarrow> list_all alphabet (fst (GetVMName ?c (Some ?f)))"
    and "prefixedName ?c \<noteq> [] \<longrightarrow> naming_grammar (fst (GetVMName ?c None))"
    using GetVMName_alphabet [of ?c "Some ?f" ?f] by blast+
  with n s p show ?thesis
    by simp
qed

text \<open>
  Claim C7. The sanitizer is idempotent: applying it twice is applying it once. So a
  name whose intermediate form is already in the output alphabet resolves to that form
  unchanged.
\<close>

theorem sanitize_idempotent:
  "ReplaceAllString vmRegExp (ReplaceAllString vmRegExp x ''-'') ''-''
     = ReplaceAllString vmRegExp x ''-''
   \<and> (list_all alphabet (prefixedName ccid) \<longrightarrow> GetVMName ccid None = (prefixedName ccid, None))"
  by (simp add: GetVMName_None ReplaceAll_fixed ReplaceAll_alphabet)

theorem sanitize_idempotent_witness:
  "ReplaceAllString vmRegExp (ReplaceAllString vmRegExp ''my cc!'' ''-'') ''-'' = ''my-cc-''
   \<and> ReplaceAllString vmRegExp ''my cc!'' ''-'' = ''my-cc-''
   \<and> list_all alphabet ''net1-peer1-mycc''
   \<and> GetVMName \<lparr>NetworkID = ''net1'', PeerID = ''peer1'', baseName = ''mycc''\<rparr> None
        = (''net1-peer1-mycc'', None)"
proof -
  let ?c = "\<lparr>NetworkID = ''net1'', PeerID = ''peer1'', baseName = ''mycc''\<rparr>"
  have r: "ReplaceAllString vmRegExp ''my cc!'' ''-'' = ''my-cc-''"
    by (simp add: ReplaceAll_in ReplaceAll_out_ascii alphabet_def del: ReplaceAllString.simps(2))
  have p: "prefixedName ?c = ''net1-peer1-mycc''"
    by (simp add: prefixedName_def GetName_def)
  from sanitize_idempotent [of "''my cc!''" ?c] r p alphabet_example show ?thesis
    by simp
qed

end
